theory Spec2Isabelle
  imports Complex_Main "HOL-Library.AList"
begin

section \<open>Token store and token lifecycle (backend/main.go)\<close>

text \<open>
  The backend keeps one OAuth token triple in the process-wide variable
  \<open>currentTokens\<close>, guarded by the process-wide \<open>tokenMutex\<close>, and mirrors it in the
  file \<open>data/strava_token.json\<close>.  The activity cache is the file
  \<open>data/strava_activities.json\<close>.  All of this is mutable state of the program, so the
  embedding threads one record, \<open>world\<close>, through every function.
\<close>

record TokenData =
  AccessToken :: string
  RefreshToken :: string
  ExpiresAt :: int

text \<open>
  \<open>StravaTokenResponse\<close> has the same three fields as \<open>TokenData\<close>; the source
  converts between them with the plain conversion \<open>TokenData(tokenResponse)\<close>.
\<close>

type_synonym StravaTokenResponse = TokenData

text \<open>
  Values of \<open>interface{}\<close> as \<open>encoding/json\<close> produces them: every JSON number is a
  \<open>float64\<close>.  Finite floats are modelled by real numbers; rounding is outside the model.
\<close>

datatype jvalue =
    JNull
  | JBool bool
  | JNumber real
  | JString string
  | JArray "jvalue list"
  | JObject "(string \<times> jvalue) list"

text \<open>
  One element of \<open>[]map[string]interface{}\<close>: the entries of the decoded map.
  A key is read with \<open>map_of\<close>.
\<close>

type_synonym raw_activity = "(string \<times> jvalue) list"

text \<open>
  The state of \<open>data/strava_activities.json\<close> as the read path distinguishes it: no
  file, a file that cannot be read, a file whose bytes do not unmarshal into
  \<open>[]map[string]interface{}\<close>, or a document holding a list of objects.
\<close>

datatype cache_file =
    Missing
  | Unreadable
  | Malformed
  | Doc "raw_activity list"

text \<open>The two grants posted to \<open>https://www.strava.com/oauth/token\<close>.\<close>

datatype token_request =
    CodeGrant string
  | RefreshGrant string

datatype token_body =
    Undecodable
  | Decoded StravaTokenResponse

datatype token_reply =
    TransportError
  | HttpReply nat token_body

datatype page_body =
    PageUndecodable
  | PageItems "raw_activity list"

datatype page_reply =
    PageTransportError
  | PageHttp nat page_body

record world =
  currentTokens :: TokenData
  tokenMutex :: bool
  tokenFile :: "TokenData option"
  dataFile :: cache_file
  posted :: "token_request list"

text \<open>
  What a request meets outside the process: the upstream answers, whether the file
  system operations fail, and the clock (nanoseconds since the Unix epoch).
\<close>

record env =
  oauth :: "token_request \<Rightarrow> token_reply"
  activityPages :: "string \<Rightarrow> nat \<Rightarrow> page_reply"
  mkdirFails :: bool
  writeFails :: bool
  createFails :: bool
  encodeFails :: bool
  now :: int

datatype err =
    NoAccessToken
  | NoRefreshToken
  | RefreshRequestFailed
  | RefreshRejected nat
  | RefreshDecodeFailed
  | SaveRefreshedFailed err
  | MkdirFailed
  | WriteFailed
  | CodeMissing
  | ExchangeRequestFailed
  | ExchangeRejected nat
  | ExchangeDecodeFailed
  | SaveTokenFailed
  | FetchFailed
  | UpstreamError nat
  | DecodeFailed
  | CreateFailed
  | EncodeFailed
  | CacheNotFound
  | CacheUnreadable
  | CacheCorrupt
  | NoValidData
  | BadStartDate
  | BadEndDate

text \<open>
  A call either returns a value and the new state, or never returns.  The second case
  is \<open>Stuck\<close>, with the state in which the call stopped: a \<open>Lock\<close> of a mutex that is
  already held (\<open>sync.Mutex\<close> is not reentrant, and no other request can release a mutex
  it does not hold), an \<open>Unlock\<close> of a mutex that is not held (a fatal runtime error),
  or a page loop that never meets a short page.
\<close>

datatype 'a outcome =
    Return 'a world
  | Stuck world

datatype 'a response =
    Response nat "err + 'a"
  | Redirect nat string

definition tokenTTLMargin :: int where
  "tokenTTLMargin = 60 * 1000000000"

definition frontendURL :: string where
  "frontendURL = ''http://localhost:5173''"

definition Lock :: "world \<Rightarrow> unit outcome" where
  "Lock w = (if tokenMutex w then Stuck w else Return () (w\<lparr>tokenMutex := True\<rparr>))"

definition Unlock :: "world \<Rightarrow> unit outcome" where
  "Unlock w = (if tokenMutex w then Return () (w\<lparr>tokenMutex := False\<rparr>) else Stuck w)"

text \<open>\<open>defer tokenMutex.Unlock()\<close>: the result is fixed, then the mutex is released.\<close>

definition deferUnlock :: "'a \<Rightarrow> world \<Rightarrow> 'a outcome" where
  "deferUnlock r w = (case Unlock w of Return u w' \<Rightarrow> Return r w' | Stuck w' \<Rightarrow> Stuck w')"

text \<open>
  \<open>saveToken\<close>: takes the mutex, overwrites the in-memory mirror, creates the data
  directory and writes the token file.  \<open>json.MarshalIndent\<close> of three plain fields
  cannot fail.
\<close>

definition saveToken :: "env \<Rightarrow> TokenData \<Rightarrow> world \<Rightarrow> (err + unit) outcome" where
  "saveToken e t w =
     (case Lock w of
        Stuck w' \<Rightarrow> Stuck w'
      | Return u w1 \<Rightarrow>
          (let w2 = w1\<lparr>currentTokens := t\<rparr> in
           if mkdirFails e then deferUnlock (Inl MkdirFailed) w2
           else if writeFails e then deferUnlock (Inl WriteFailed) w2
           else deferUnlock (Inr ()) (w2\<lparr>tokenFile := Some t\<rparr>)))"

text \<open>
  \<open>refreshAccessToken\<close>: holds the mutex from its first line to its return
  (\<open>defer tokenMutex.Unlock()\<close>), and calls \<open>saveToken\<close> inside that region.
\<close>

definition refreshAccessToken :: "env \<Rightarrow> world \<Rightarrow> (err + unit) outcome" where
  "refreshAccessToken e w =
     (case Lock w of
        Stuck w' \<Rightarrow> Stuck w'
      | Return u w1 \<Rightarrow>
          if RefreshToken (currentTokens w1) = [] then deferUnlock (Inl NoRefreshToken) w1
          else
            (let req = RefreshGrant (RefreshToken (currentTokens w1));
                 w2 = w1\<lparr>posted := posted w1 @ [req]\<rparr>
             in case oauth e req of
                  TransportError \<Rightarrow> deferUnlock (Inl RefreshRequestFailed) w2
                | HttpReply status body \<Rightarrow>
                    if status = 200 then
                      (case body of
                         Undecodable \<Rightarrow> deferUnlock (Inl RefreshDecodeFailed) w2
                       | Decoded newTokens \<Rightarrow>
                           (let t1 = (currentTokens w2)
                                       \<lparr>AccessToken := AccessToken newTokens,
                                        ExpiresAt := ExpiresAt newTokens\<rparr>;
                                t2 = (if RefreshToken newTokens = [] then t1
                                      else t1\<lparr>RefreshToken := RefreshToken newTokens\<rparr>);
                                w3 = w2\<lparr>currentTokens := t2\<rparr>
                            in case saveToken e t2 w3 of
                                 Stuck w' \<Rightarrow> Stuck w'
                               | Return (Inl x) w4 \<Rightarrow> deferUnlock (Inl (SaveRefreshedFailed x)) w4
                               | Return (Inr v) w4 \<Rightarrow> deferUnlock (Inr ()) w4))
                    else deferUnlock (Inl (RefreshRejected status)) w2))"

text \<open>
  \<open>ensureValidToken\<close>: \<open>time.Now().Add(tokenTTLMargin).After(time.Unix(ExpiresAt, 0))\<close>
  decides whether to refresh.  On that branch the mutex is released, \<open>defer
  tokenMutex.Lock()\<close> is registered, and \<open>refreshAccessToken\<close> runs; the returned
  string is read before the deferred calls run (\<open>Lock\<close>, then \<open>Unlock\<close>).
\<close>

definition relock :: "'a \<Rightarrow> world \<Rightarrow> 'a outcome" where
  "relock r w = (case Lock w of Stuck w' \<Rightarrow> Stuck w' | Return u w' \<Rightarrow> deferUnlock r w')"

definition ensureValidToken :: "env \<Rightarrow> world \<Rightarrow> (err + string) outcome" where
  "ensureValidToken e w =
     (case Lock w of
        Stuck w' \<Rightarrow> Stuck w'
      | Return u w1 \<Rightarrow>
          if AccessToken (currentTokens w1) = [] then deferUnlock (Inl NoAccessToken) w1
          else if now e + tokenTTLMargin > ExpiresAt (currentTokens w1) * 1000000000 then
            (case Unlock w1 of
               Stuck w' \<Rightarrow> Stuck w'
             | Return u2 w2 \<Rightarrow>
                 (case refreshAccessToken e w2 of
                    Stuck w' \<Rightarrow> Stuck w'
                  | Return (Inl x) w3 \<Rightarrow> relock (Inl x) w3
                  | Return (Inr v) w3 \<Rightarrow> relock (Inr (AccessToken (currentTokens w3))) w3))
          else deferUnlock (Inr (AccessToken (currentTokens w1))) w1)"

text \<open>
  \<open>handleStravaCallback\<close>: the OAuth callback.  \<open>code\<close> and \<open>error\<close> are the two query
  parameters.  The decoded response is saved as it is: \<open>saveToken(TokenData(tokenResponse))\<close>.
\<close>

definition handleStravaCallback ::
  "env \<Rightarrow> string \<Rightarrow> string \<Rightarrow> world \<Rightarrow> unit response outcome" where
  "handleStravaCallback e code errorParam w =
     (if code = [] then
        (if errorParam = [] then Return (Response 400 (Inl CodeMissing)) w
         else Return (Redirect 307 (frontendURL @ ''/?auth_status=denied'')) w)
      else
        (let req = CodeGrant code;
             w1 = w\<lparr>posted := posted w @ [req]\<rparr>
         in case oauth e req of
              TransportError \<Rightarrow> Return (Response 500 (Inl ExchangeRequestFailed)) w1
            | HttpReply status body \<Rightarrow>
                if status = 200 then
                  (case body of
                     Undecodable \<Rightarrow> Return (Response 500 (Inl ExchangeDecodeFailed)) w1
                   | Decoded tokenResponse \<Rightarrow>
                       (case saveToken e tokenResponse w1 of
                          Stuck w' \<Rightarrow> Stuck w'
                        | Return (Inl x) w2 \<Rightarrow> Return (Response 500 (Inl SaveTokenFailed)) w2
                        | Return (Inr v) w2 \<Rightarrow>
                            Return (Redirect 307 (frontendURL @ ''/?auth_status=success'')) w2))
                else Return (Response 500 (Inl (ExchangeRejected status))) w1))"

section \<open>The Go standard library, as far as the program calls it\<close>

text \<open>
  The packages \<open>time\<close> and \<open>encoding/json\<close> are not part of the repository.  The
  functions below take what they compute as a parameter, so that every theorem holds
  for whatever the library does:
  \<^item> \<open>rfc3339Month s\<close>: \<open>time.Parse(time.RFC3339, s)\<close> followed by \<open>Format("2006-01")\<close>,
    \<open>None\<close> when the parse fails;
  \<^item> \<open>rfc3339Day s\<close>: \<open>time.Parse(time.RFC3339, s)\<close> followed by
    \<open>In(time.UTC).Truncate(24 * time.Hour)\<close>, as a number of days since 1970-01-01;
  \<^item> \<open>parseDay s\<close>: \<open>time.ParseInLocation("2006-01-02", s, time.UTC)\<close>, as a day number;
  \<^item> \<open>formatDay d\<close>: \<open>Format("2006-01-02")\<close> of midnight UTC of day \<open>d\<close>;
  \<^item> \<open>unmarshalActivities\<close>: \<open>json.Unmarshal\<close> of the cache document into
    \<open>[]StravaActivity\<close>, \<open>None\<close> when it reports an error.
  Every \<open>time.Time\<close> that \<open>handleGetWeeklyPaceStats\<close> compares is a midnight in UTC,
  so a day number stands for it.
\<close>

record StravaActivity =
  ActID :: int
  ActName :: string
  ActDistance :: real
  ActMovingTime :: real
  ActElapsedTime :: real
  ActType :: string
  ActStartDate :: string
  ActStartDateLocal :: string

record golib =
  rfc3339Month :: "string \<Rightarrow> string option"
  rfc3339Day :: "string \<Rightarrow> int option"
  parseDay :: "string \<Rightarrow> int option"
  formatDay :: "int \<Rightarrow> string"
  unmarshalActivities :: "raw_activity list \<Rightarrow> StravaActivity list option"

section \<open>Activity cache and monthly aggregation\<close>

record MinimalActivityData =
  StartDate :: string
  Distance :: real
  MovingTime :: real
  Type :: string

record MonthlySportStats =
  MonthYear :: string
  RunWalkHike :: real
  Bike :: real
  Other :: real

text \<open>
  A \<open>float64\<close> that a division produces: \<open>x / 0\<close> is not an error in Go, it is an
  infinity or a NaN.  The accumulated sums stay real numbers.
\<close>

datatype float64 =
    Finite real
  | NaN
  | PosInf
  | NegInf

definition fdiv :: "real \<Rightarrow> real \<Rightarrow> float64" where
  "fdiv a b =
     (if b = 0 then (if a = 0 then NaN else if 0 < a then PosInf else NegInf)
      else Finite (a / b))"

record MonthlyPaceStats =
  PaceMonthYear :: string
  RunWalkHikeTime :: real
  RunWalkHikeDistance :: real
  BikeTime :: real
  BikeDistance :: real
  OtherTime :: real
  OtherDistance :: real
  RunWalkHikePace :: float64
  BikePace :: float64
  OtherPace :: float64

definition classifyActivity :: "string \<Rightarrow> string" where
  "classifyActivity activityType =
     (if activityType \<in> set [''Run'', ''Walk'', ''Hike'', ''TrailRun''] then ''RunWalkHike''
      else if activityType \<in> set [''Ride'', ''VirtualRide'', ''Handcycle''] then ''Bike''
      else ''Other'')"

text \<open>
  \<open>getFloat\<close> on the value of a map index expression: a missing key gives the nil
  interface, which takes the default branch.  The \<open>int\<close> and \<open>int64\<close> branches cannot
  be met by a value that \<open>json.Unmarshal\<close> produced.
\<close>

definition getFloat :: "jvalue option \<Rightarrow> real \<times> bool" where
  "getFloat v = (case v of Some (JNumber f) \<Rightarrow> (f, True) | _ \<Rightarrow> (0, False))"

text \<open>The type assertion \<open>.(string)\<close> with its \<open>ok\<close> result.\<close>

definition assertString :: "jvalue option \<Rightarrow> string \<times> bool" where
  "assertString v = (case v of Some (JString s) \<Rightarrow> (s, True) | _ \<Rightarrow> ([], False))"

text \<open>The body of the loop of \<open>readLocalActivities\<close>: one raw activity, kept or dropped.\<close>

definition minimalOf :: "raw_activity \<Rightarrow> MinimalActivityData option" where
  "minimalOf activity =
     (let distance = fst (getFloat (map_of activity ''distance''));
          movingTime = fst (getFloat (map_of activity ''moving_time''));
          sd = assertString (map_of activity ''start_date'');
          ty = assertString (map_of activity ''type'')
      in if snd sd \<and> snd ty \<and> 0 < distance \<and> 0 < movingTime
         then Some \<lparr>StartDate = fst sd, Distance = distance,
                    MovingTime = movingTime, Type = fst ty\<rparr>
         else None)"

definition readLocalActivities :: "world \<Rightarrow> err + MinimalActivityData list" where
  "readLocalActivities w =
     (case dataFile w of
        Missing \<Rightarrow> Inl CacheNotFound
      | Unreadable \<Rightarrow> Inl CacheUnreadable
      | Malformed \<Rightarrow> Inl CacheCorrupt
      | Doc rawActivities \<Rightarrow>
          (let minimalActivities = List.map_filter minimalOf rawActivities
           in if length minimalActivities = 0 then Inl NoValidData
              else Inr minimalActivities))"

text \<open>
  The Go maps \<open>statsMap\<close> and \<open>paceMap\<close> are association lists here, a key written
  with \<open>AList.update\<close> and read with \<open>map_of\<close>.  Go ranges over a map in an unspecified
  order; the model lists the months in the order of their first activity, and no
  theorem below depends on the order.
\<close>

definition addDistance :: "string \<Rightarrow> real \<Rightarrow> MonthlySportStats \<Rightarrow> MonthlySportStats" where
  "addDistance category d stat =
     (if category = ''RunWalkHike'' then stat\<lparr>RunWalkHike := RunWalkHike stat + d\<rparr>
      else if category = ''Bike'' then stat\<lparr>Bike := Bike stat + d\<rparr>
      else if category = ''Other'' then stat\<lparr>Other := Other stat + d\<rparr>
      else stat)"

definition distanceStep ::
  "golib \<Rightarrow> (string \<times> MonthlySportStats) list \<Rightarrow> MinimalActivityData
     \<Rightarrow> (string \<times> MonthlySportStats) list" where
  "distanceStep lib statsMap activity =
     (case rfc3339Month lib (StartDate activity) of
        None \<Rightarrow> statsMap
      | Some monthYear \<Rightarrow>
          (let category = classifyActivity (Type activity);
               stat = (case map_of statsMap monthYear of
                         None \<Rightarrow> \<lparr>MonthYear = monthYear, RunWalkHike = 0, Bike = 0, Other = 0\<rparr>
                       | Some s \<Rightarrow> s)
           in AList.update monthYear (addDistance category (Distance activity) stat) statsMap))"

definition calculateMonthlyDistanceStats :: "golib \<Rightarrow> world \<Rightarrow> err + MonthlySportStats list" where
  "calculateMonthlyDistanceStats lib w =
     (case readLocalActivities w of
        Inl x \<Rightarrow> Inl x
      | Inr activities \<Rightarrow> Inr (map snd (foldl (distanceStep lib) [] activities)))"

definition addPace :: "string \<Rightarrow> real \<Rightarrow> real \<Rightarrow> MonthlyPaceStats \<Rightarrow> MonthlyPaceStats" where
  "addPace category d t stat =
     (if category = ''RunWalkHike''
        then stat\<lparr>RunWalkHikeDistance := RunWalkHikeDistance stat + d,
                  RunWalkHikeTime := RunWalkHikeTime stat + t\<rparr>
      else if category = ''Bike''
        then stat\<lparr>BikeDistance := BikeDistance stat + d, BikeTime := BikeTime stat + t\<rparr>
      else if category = ''Other''
        then stat\<lparr>OtherDistance := OtherDistance stat + d, OtherTime := OtherTime stat + t\<rparr>
      else stat)"

definition newPaceStat :: "string \<Rightarrow> MonthlyPaceStats" where
  "newPaceStat monthYear =
     \<lparr>PaceMonthYear = monthYear,
      RunWalkHikeTime = 0, RunWalkHikeDistance = 0,
      BikeTime = 0, BikeDistance = 0,
      OtherTime = 0, OtherDistance = 0,
      RunWalkHikePace = Finite 0, BikePace = Finite 0, OtherPace = Finite 0\<rparr>"

definition paceStep ::
  "golib \<Rightarrow> (string \<times> MonthlyPaceStats) list \<Rightarrow> MinimalActivityData
     \<Rightarrow> (string \<times> MonthlyPaceStats) list" where
  "paceStep lib paceMap activity =
     (case rfc3339Month lib (StartDate activity) of
        None \<Rightarrow> paceMap
      | Some monthYear \<Rightarrow>
          (let category = classifyActivity (Type activity);
               stat = (case map_of paceMap monthYear of
                         None \<Rightarrow> newPaceStat monthYear
                       | Some s \<Rightarrow> s)
           in AList.update monthYear
                (addPace category (Distance activity) (MovingTime activity) stat) paceMap))"

text \<open>The second loop of \<open>calculateMonthlyPaceStats\<close>: three guarded divisions.\<close>

definition averagePaces :: "MonthlyPaceStats \<Rightarrow> MonthlyPaceStats" where
  "averagePaces stat =
     (let s1 = (if 0 < RunWalkHikeDistance stat
                then stat\<lparr>RunWalkHikePace := fdiv (RunWalkHikeTime stat) (RunWalkHikeDistance stat)\<rparr>
                else stat);
          s2 = (if 0 < BikeDistance s1
                then s1\<lparr>BikePace := fdiv (BikeTime s1) (BikeDistance s1)\<rparr>
                else s1)
      in if 0 < OtherDistance s2
         then s2\<lparr>OtherPace := fdiv (OtherTime s2) (OtherDistance s2)\<rparr>
         else s2)"

definition calculateMonthlyPaceStats :: "golib \<Rightarrow> world \<Rightarrow> err + MonthlyPaceStats list" where
  "calculateMonthlyPaceStats lib w =
     (case readLocalActivities w of
        Inl x \<Rightarrow> Inl x
      | Inr activities \<Rightarrow>
          Inr (map (averagePaces \<circ> snd) (foldl (paceStep lib) [] activities)))"

definition handleGetDistanceStats ::
  "golib \<Rightarrow> env \<Rightarrow> world \<Rightarrow> MonthlySportStats list response outcome" where
  "handleGetDistanceStats lib e w =
     (case ensureValidToken e w of
        Stuck w' \<Rightarrow> Stuck w'
      | Return (Inl x) w' \<Rightarrow> Return (Response 401 (Inl x)) w'
      | Return (Inr tok) w' \<Rightarrow>
          (case calculateMonthlyDistanceStats lib w' of
             Inl x \<Rightarrow> Return (Response 500 (Inl x)) w'
           | Inr stats \<Rightarrow> Return (Response 200 (Inr stats)) w'))"

definition handleGetPaceStats ::
  "golib \<Rightarrow> env \<Rightarrow> world \<Rightarrow> MonthlyPaceStats list response outcome" where
  "handleGetPaceStats lib e w =
     (case ensureValidToken e w of
        Stuck w' \<Rightarrow> Stuck w'
      | Return (Inl x) w' \<Rightarrow> Return (Response 401 (Inl x)) w'
      | Return (Inr tok) w' \<Rightarrow>
          (case calculateMonthlyPaceStats lib w' of
             Inl x \<Rightarrow> Return (Response 500 (Inl x)) w'
           | Inr stats \<Rightarrow> Return (Response 200 (Inr stats)) w'))"

section \<open>Bulk fetch\<close>

definition perPage :: nat where
  "perPage = 200"

text \<open>
  The \<open>for\<close> loop of \<open>fetchAndSaveAllActivities\<close>.  It ends at the first failure or at
  the first page shorter than \<open>perPage\<close>; an upstream that always answers full pages
  keeps it running, which is the value \<open>None\<close>.
\<close>

partial_function (option) fetchPages ::
  "(nat \<Rightarrow> page_reply) \<Rightarrow> nat \<Rightarrow> raw_activity list \<Rightarrow> (err + raw_activity list) option" where
  "fetchPages get page allActivities =
     (case get page of
        PageTransportError \<Rightarrow> Some (Inl FetchFailed)
      | PageHttp status body \<Rightarrow>
          if status = 200 then
            (case body of
               PageUndecodable \<Rightarrow> Some (Inl DecodeFailed)
             | PageItems currentActivities \<Rightarrow>
                 if length currentActivities < perPage
                 then Some (Inr (allActivities @ currentActivities))
                 else fetchPages get (Suc page) (allActivities @ currentActivities))
          else Some (Inl (UpstreamError status)))"

text \<open>
  After the loop the directory is created, the file is created (which truncates it)
  and the collection is encoded into it.  A failed \<open>Encode\<close> leaves a truncated file.
\<close>

definition fetchAndSaveAllActivities :: "env \<Rightarrow> string \<Rightarrow> world \<Rightarrow> (err + unit) outcome" where
  "fetchAndSaveAllActivities e accessToken w =
     (case fetchPages (activityPages e accessToken) 1 [] of
        None \<Rightarrow> Stuck w
      | Some (Inl x) \<Rightarrow> Return (Inl x) w
      | Some (Inr allActivities) \<Rightarrow>
          if mkdirFails e then Return (Inl MkdirFailed) w
          else if createFails e then Return (Inl CreateFailed) w
          else if encodeFails e then Return (Inl EncodeFailed) (w\<lparr>dataFile := Malformed\<rparr>)
          else Return (Inr ()) (w\<lparr>dataFile := Doc allActivities\<rparr>))"

section \<open>Date-range pace-zone aggregate\<close>

record PaceStat =
  Red :: real
  Orange :: real
  Yellow :: real
  Green :: real

text \<open>
  \<open>getPaceZone\<close> returns one of four label strings, and \<open>calculatePaceStats\<close>
  switches on the label; the four labels are the four constructors here.
\<close>

datatype pace_zone =
    ZoneRed
  | ZoneOrange
  | ZoneYellow
  | ZoneGreen

definition getPaceZone :: "real \<Rightarrow> pace_zone" where
  "getPaceZone speed =
     (if 4.8 \<le> speed then ZoneRed
      else if 3.8 \<le> speed then ZoneOrange
      else if 3.0 \<le> speed then ZoneYellow
      else ZoneGreen)"

definition emptyPaceStat :: PaceStat where
  "emptyPaceStat = \<lparr>Red = 0, Orange = 0, Yellow = 0, Green = 0\<rparr>"

definition calculatePaceStats :: "StravaActivity \<Rightarrow> PaceStat" where
  "calculatePaceStats activity =
     (if ActType activity \<noteq> ''Run'' then emptyPaceStat
      else
        (let distanceM = ActDistance activity;
             movingTimeS = ActMovingTime activity
         in if distanceM \<le> 0 \<or> movingTimeS \<le> 0 then emptyPaceStat
            else
              (let avgSpeedMPS = distanceM / movingTimeS;
                   distanceKM = distanceM / 1000
               in case getPaceZone avgSpeedMPS of
                    ZoneRed \<Rightarrow> emptyPaceStat\<lparr>Red := distanceKM\<rparr>
                  | ZoneOrange \<Rightarrow> emptyPaceStat\<lparr>Orange := distanceKM\<rparr>
                  | ZoneYellow \<Rightarrow> emptyPaceStat\<lparr>Yellow := distanceKM\<rparr>
                  | ZoneGreen \<Rightarrow> emptyPaceStat\<lparr>Green := distanceKM\<rparr>)))"

text \<open>\<open>loadLocalActivities\<close> logs a failure and returns nil.\<close>

definition loadLocalActivities :: "golib \<Rightarrow> world \<Rightarrow> StravaActivity list" where
  "loadLocalActivities lib w =
     (case dataFile w of
        Doc rawActivities \<Rightarrow>
          (case unmarshalActivities lib rawActivities of
             None \<Rightarrow> []
           | Some activities \<Rightarrow> activities)
      | _ \<Rightarrow> [])"

text \<open>
  The first loop of \<open>handleGetWeeklyPaceStats\<close>:
  \<open>for current.Before(endDate.AddDate(0, 0, 1))\<close>, one map entry per iteration.
\<close>

function initDays ::
  "golib \<Rightarrow> int \<Rightarrow> int \<Rightarrow> (string \<times> PaceStat) list \<Rightarrow> (string \<times> PaceStat) list" where
  "initDays lib current endDate weeklyData =
     (if current < endDate + 1
      then initDays lib (current + 1) endDate
             (AList.update (formatDay lib current) emptyPaceStat weeklyData)
      else weeklyData)"
  by pat_completeness auto
termination
  by (relation "measure (\<lambda>(lib, current, endDate, weeklyData). nat (endDate + 1 - current))") auto

declare initDays.simps [simp del]

definition addPaceStat :: "PaceStat \<Rightarrow> PaceStat \<Rightarrow> PaceStat" where
  "addPaceStat currentDayStats paceStats =
     \<lparr>Red = Red currentDayStats + Red paceStats,
      Orange = Orange currentDayStats + Orange paceStats,
      Yellow = Yellow currentDayStats + Yellow paceStats,
      Green = Green currentDayStats + Green paceStats\<rparr>"

text \<open>
  The range test of the second loop:
  \<open>(activityDate.Equal(startDate) || activityDate.After(startDate)) &&
  (activityDate.Equal(endDate) || activityDate.Before(endDate.AddDate(0, 0, 1)))\<close>.
\<close>

definition withinRange :: "int \<Rightarrow> int \<Rightarrow> int \<Rightarrow> bool" where
  "withinRange startDate endDate activityDate =
     ((activityDate = startDate \<or> startDate < activityDate) \<and>
      (activityDate = endDate \<or> activityDate < endDate + 1))"

text \<open>
  The body of the second loop.  Reading a key that the map does not hold gives the
  zero \<open>PaceStat\<close>.
\<close>

definition weeklyStep ::
  "golib \<Rightarrow> int \<Rightarrow> int \<Rightarrow> (string \<times> PaceStat) list \<Rightarrow> StravaActivity
     \<Rightarrow> (string \<times> PaceStat) list" where
  "weeklyStep lib startDate endDate weeklyData activity =
     (case rfc3339Day lib (ActStartDateLocal activity) of
        None \<Rightarrow> weeklyData
      | Some activityDate \<Rightarrow>
          if withinRange startDate endDate activityDate
          then
            (let dateStr = formatDay lib activityDate;
                 paceStats = calculatePaceStats activity;
                 currentDayStats = (case map_of weeklyData dateStr of
                                      None \<Rightarrow> emptyPaceStat
                                    | Some s \<Rightarrow> s)
             in AList.update dateStr (addPaceStat currentDayStats paceStats) weeklyData)
          else weeklyData)"

definition weeklyPaceData :: "golib \<Rightarrow> world \<Rightarrow> int \<Rightarrow> int \<Rightarrow> (string \<times> PaceStat) list" where
  "weeklyPaceData lib w startDate endDate =
     foldl (weeklyStep lib startDate endDate) (initDays lib startDate endDate [])
       (loadLocalActivities lib w)"

text \<open>
  The handler.  Without both query parameters the range is the Monday to Sunday week
  of \<open>time.Now()\<close> in UTC; 1970-01-01 was a Thursday, weekday 4 with Sunday as 0.  The
  response body is the map itself: one JSON member per date string.
\<close>

definition handleGetWeeklyPaceStats ::
  "golib \<Rightarrow> env \<Rightarrow> string \<Rightarrow> string \<Rightarrow> world \<Rightarrow> (string \<times> PaceStat) list response" where
  "handleGetWeeklyPaceStats lib e startQuery endQuery w =
     (if startQuery \<noteq> [] \<and> endQuery \<noteq> [] then
        (case parseDay lib startQuery of
           None \<Rightarrow> Response 400 (Inl BadStartDate)
         | Some startDate \<Rightarrow>
             (case parseDay lib endQuery of
                None \<Rightarrow> Response 400 (Inl BadEndDate)
              | Some endDate \<Rightarrow> Response 200 (Inr (weeklyPaceData lib w startDate endDate))))
      else
        (let today = now e div (86400 * 1000000000);
             weekday = (today + 4) mod 7;
             offset = (if 0 < 1 - weekday then - 6 else 1 - weekday);
             startDate = today + offset;
             endDate = startDate + 6
         in Response 200 (Inr (weeklyPaceData lib w startDate endDate))))"

section \<open>A model of the library functions, for concrete runs\<close>

text \<open>
  The theorems are stated for every \<open>golib\<close>.  To run the program on concrete inputs,
  \<open>stdlib\<close> gives the library functions for the inputs of that shape: dates
  \<open>YYYY-MM-DD\<close> and timestamps \<open>YYYY-MM-DDTHH:MM:SS\<close>, an optional fraction, and a
  zone \<open>Z\<close> or \<open>+HH:MM\<close> or \<open>-HH:MM\<close>, with the calendar's range checks.
\<close>

definition isDigit :: "char \<Rightarrow> bool" where
  "isDigit c = (c \<in> set ''0123456789'')"

definition digitVal :: "char \<Rightarrow> int" where
  "digitVal c = int (of_char c) - 48"

definition atoi :: "string \<Rightarrow> int option" where
  "atoi s =
     (if s \<noteq> [] \<and> list_all isDigit s
      then Some (foldl (\<lambda>n c. 10 * n + digitVal c) 0 s) else None)"

definition isLeap :: "int \<Rightarrow> bool" where
  "isLeap y = (if y mod 400 = 0 then True else if y mod 100 = 0 then False else y mod 4 = 0)"

definition daysIn :: "int \<Rightarrow> int \<Rightarrow> int" where
  "daysIn y m =
     (if m = 2 then (if isLeap y then 29 else 28)
      else if m \<in> set [4, 6, 9, 11] then 30 else 31)"

text \<open>Day number of a civil date, and back (proleptic Gregorian calendar).\<close>

definition daysFromCivil :: "int \<Rightarrow> int \<Rightarrow> int \<Rightarrow> int" where
  "daysFromCivil y m d =
     (let y1 = (if m \<le> 2 then y - 1 else y);
          era = y1 div 400;
          yoe = y1 - era * 400;
          doy = (153 * (if 2 < m then m - 3 else m + 9) + 2) div 5 + d - 1;
          doe = yoe * 365 + yoe div 4 - yoe div 100 + doy
      in era * 146097 + doe - 719468)"

definition civilFromDays :: "int \<Rightarrow> int \<times> int \<times> int" where
  "civilFromDays z =
     (let z1 = z + 719468;
          era = z1 div 146097;
          doe = z1 - era * 146097;
          yoe = (doe - doe div 1460 + doe div 36524 - doe div 146096) div 365;
          doy = doe - (365 * yoe + yoe div 4 - yoe div 100);
          mp = (5 * doy + 2) div 153;
          d = doy - (153 * mp + 2) div 5 + 1;
          m = (if mp < 10 then mp + 3 else mp - 9)
      in (if m \<le> 2 then yoe + era * 400 + 1 else yoe + era * 400, m, d))"

definition digitChar :: "int \<Rightarrow> char" where
  "digitChar n = ''0123456789'' ! nat n"

definition pad2 :: "int \<Rightarrow> string" where
  "pad2 n = [digitChar (n div 10 mod 10), digitChar (n mod 10)]"

definition pad4 :: "int \<Rightarrow> string" where
  "pad4 n = pad2 (n div 100) @ pad2 n"

definition stdFormatDay :: "int \<Rightarrow> string" where
  "stdFormatDay z = (case civilFromDays z of (y, m, d) \<Rightarrow> pad4 y @ ''-'' @ pad2 m @ ''-'' @ pad2 d)"

definition parseCivil :: "string \<Rightarrow> (int \<times> int \<times> int) option" where
  "parseCivil s =
     (if length s = 10 \<and> s ! 4 = CHR ''-'' \<and> s ! 7 = CHR ''-'' then
        (case (atoi (take 4 s), atoi (take 2 (drop 5 s)), atoi (drop 8 s)) of
           (Some y, Some m, Some d) \<Rightarrow>
             if 1 \<le> m \<and> m \<le> 12 \<and> 1 \<le> d \<and> d \<le> daysIn y m then Some (y, m, d) else None
         | _ \<Rightarrow> None)
      else None)"

definition stdParseDay :: "string \<Rightarrow> int option" where
  "stdParseDay s = (case parseCivil s of None \<Rightarrow> None | Some (y, m, d) \<Rightarrow> Some (daysFromCivil y m d))"

definition parseClock :: "string \<Rightarrow> int option" where
  "parseClock s =
     (if length s = 8 \<and> s ! 2 = CHR '':'' \<and> s ! 5 = CHR '':'' then
        (case (atoi (take 2 s), atoi (take 2 (drop 3 s)), atoi (drop 6 s)) of
           (Some h, Some mi, Some sec) \<Rightarrow>
             if h < 24 \<and> mi < 60 \<and> sec < 60 then Some (h * 3600 + mi * 60 + sec) else None
         | _ \<Rightarrow> None)
      else None)"

definition skipFraction :: "string \<Rightarrow> string option" where
  "skipFraction s =
     (if take 1 s = ''.'' then
        (if takeWhile isDigit (drop 1 s) = [] then None else Some (dropWhile isDigit (drop 1 s)))
      else Some s)"

definition parseZone :: "string \<Rightarrow> int option" where
  "parseZone s =
     (if s = ''Z'' then Some 0
      else if length s = 6 \<and> s ! 0 \<in> set ''+-'' \<and> s ! 3 = CHR '':'' then
        (case (atoi (take 2 (drop 1 s)), atoi (drop 4 s)) of
           (Some h, Some mi) \<Rightarrow>
             if h < 24 \<and> mi < 60
             then Some ((if s ! 0 = CHR ''-'' then - 1 else 1) * (h * 3600 + mi * 60))
             else None
         | _ \<Rightarrow> None)
      else None)"

text \<open>Seconds since the epoch of an RFC 3339 timestamp.\<close>

definition parseRFC3339 :: "string \<Rightarrow> int option" where
  "parseRFC3339 s =
     (case parseCivil (take 10 s) of
        None \<Rightarrow> None
      | Some (y, m, d) \<Rightarrow>
          if take 1 (drop 10 s) = ''T'' then
            (case parseClock (take 8 (drop 11 s)) of
               None \<Rightarrow> None
             | Some clock \<Rightarrow>
                 (case skipFraction (drop 19 s) of
                    None \<Rightarrow> None
                  | Some z \<Rightarrow>
                      (case parseZone z of
                         None \<Rightarrow> None
                       | Some off \<Rightarrow> Some (daysFromCivil y m d * 86400 + clock - off))))
          else None)"

definition stdRfc3339Month :: "string \<Rightarrow> string option" where
  "stdRfc3339Month s = (case parseRFC3339 s of None \<Rightarrow> None | Some t \<Rightarrow> Some (take 7 s))"

definition stdRfc3339Day :: "string \<Rightarrow> int option" where
  "stdRfc3339Day s = (case parseRFC3339 s of None \<Rightarrow> None | Some t \<Rightarrow> Some (t div 86400))"

text \<open>
  Decoding one object into \<open>StravaActivity\<close>: an absent or null member leaves the zero
  value, a member of the wrong JSON type is an error, and \<open>id\<close> must be a whole number.
\<close>

definition numField :: "raw_activity \<Rightarrow> string \<Rightarrow> real option" where
  "numField a k =
     (case map_of a k of
        None \<Rightarrow> Some 0 | Some JNull \<Rightarrow> Some 0 | Some (JNumber x) \<Rightarrow> Some x | _ \<Rightarrow> None)"

definition strField :: "raw_activity \<Rightarrow> string \<Rightarrow> string option" where
  "strField a k =
     (case map_of a k of
        None \<Rightarrow> Some [] | Some JNull \<Rightarrow> Some [] | Some (JString x) \<Rightarrow> Some x | _ \<Rightarrow> None)"

definition decodeActivity :: "raw_activity \<Rightarrow> StravaActivity option" where
  "decodeActivity a =
     (case (numField a ''id'', strField a ''name'', numField a ''distance'',
            numField a ''moving_time'', numField a ''elapsed_time'', strField a ''type'',
            strField a ''start_date'', strField a ''start_date_local'') of
        (Some i, Some n, Some d, Some mt, Some et, Some ty, Some sd, Some sdl) \<Rightarrow>
          if i = of_int \<lfloor>i\<rfloor>
          then Some \<lparr>ActID = \<lfloor>i\<rfloor>, ActName = n, ActDistance = d, ActMovingTime = mt,
                     ActElapsedTime = et, ActType = ty, ActStartDate = sd,
                     ActStartDateLocal = sdl\<rparr>
          else None
      | _ \<Rightarrow> None)"

fun decodeAll :: "raw_activity list \<Rightarrow> StravaActivity list option" where
  "decodeAll [] = Some []"
| "decodeAll (a # as) =
     (case decodeActivity a of
        None \<Rightarrow> None
      | Some x \<Rightarrow> (case decodeAll as of None \<Rightarrow> None | Some xs \<Rightarrow> Some (x # xs)))"

definition stdlib :: golib where
  "stdlib =
     \<lparr>rfc3339Month = stdRfc3339Month, rfc3339Day = stdRfc3339Day,
      parseDay = stdParseDay, formatDay = stdFormatDay,
      unmarshalActivities = decodeAll\<rparr>"

section \<open>Vocabulary of the properties\<close>

text \<open>The state in which a call returned or stopped.\<close>

definition final :: "'a outcome \<Rightarrow> world" where
  "final r = (case r of Return v w \<Rightarrow> w | Stuck w \<Rightarrow> w)"

text \<open>
  How one page request fails, if it does: a transport error or timeout, a status
  other than 200, or a body that does not decode.
\<close>

definition pageFailure :: "page_reply \<Rightarrow> err option" where
  "pageFailure r =
     (case r of
        PageTransportError \<Rightarrow> Some FetchFailed
      | PageHttp status body \<Rightarrow>
          if status = 200 then
            (case body of PageUndecodable \<Rightarrow> Some DecodeFailed | PageItems xs \<Rightarrow> None)
          else Some (UpstreamError status))"

text \<open>A page that succeeds and is followed by another request.\<close>

definition fullPage :: "page_reply \<Rightarrow> bool" where
  "fullPage r =
     (case r of
        PageHttp status (PageItems xs) \<Rightarrow> status = 200 \<and> perPage \<le> length xs
      | _ \<Rightarrow> False)"

text \<open>The monthly distance aggregate summed over all categories and all months.\<close>

definition monthlyTotal :: "MonthlySportStats list \<Rightarrow> real" where
  "monthlyTotal stats = sum_list (map (\<lambda>s. RunWalkHike s + Bike s + Other s) stats)"

text \<open>
  The right-hand side of the conservation property in the specification's words: the
  sum of the distance over all cached activities whose start date parses.
\<close>

definition parseableDistance :: "golib \<Rightarrow> raw_activity list \<Rightarrow> real" where
  "parseableDistance lib rawActivities =
     sum_list
       (map (\<lambda>a. fst (getFloat (map_of a ''distance'')))
          (filter
             (\<lambda>a. snd (assertString (map_of a ''start_date'')) \<and>
                  rfc3339Month lib (fst (assertString (map_of a ''start_date''))) \<noteq> None)
             rawActivities))"

text \<open>
  The same sum over the activities that \<open>readLocalActivities\<close> hands to the
  aggregation.
\<close>

definition keptDistance :: "golib \<Rightarrow> raw_activity list \<Rightarrow> real" where
  "keptDistance lib rawActivities =
     sum_list
       (map Distance
          (filter (\<lambda>a. rfc3339Month lib (StartDate a) \<noteq> None)
             (List.map_filter minimalOf rawActivities)))"


section \<open>Concrete runs\<close>

text \<open>
  An upstream that answers a refresh grant for \<open>R0\<close> and the authorization code
  \<open>abc\<close> with status 200 and a token triple whose refresh token is empty, and rejects
  everything else; its first activity page is full and its second is a 401.  The clock
  stands at 1700000000 seconds.
\<close>

definition exampleReply :: StravaTokenResponse where
  "exampleReply = \<lparr>AccessToken = ''A1'', RefreshToken = [], ExpiresAt = 1700021600\<rparr>"

definition exampleEnv :: env where
  "exampleEnv =
     \<lparr>oauth = (\<lambda>req. if req = RefreshGrant ''R0'' \<or> req = CodeGrant ''abc''
                      then HttpReply 200 (Decoded exampleReply)
                      else HttpReply 400 Undecodable),
      activityPages = (\<lambda>tok page. if page = 1 then PageHttp 200 (PageItems (replicate 200 []))
                                  else PageHttp 401 PageUndecodable),
      mkdirFails = False, writeFails = False, createFails = False, encodeFails = False,
      now = 1700000000 * 1000000000\<rparr>"

definition exampleWorld :: "TokenData \<Rightarrow> cache_file \<Rightarrow> world" where
  "exampleWorld t c =
     \<lparr>currentTokens = t, tokenMutex = False, tokenFile = Some t, dataFile = c, posted = []\<rparr>"

definition freshToken :: TokenData where
  "freshToken = \<lparr>AccessToken = ''A0'', RefreshToken = ''R0'', ExpiresAt = 1700003600\<rparr>"

text \<open>A token that expires 30 seconds after the clock of \<open>exampleEnv\<close>.\<close>

definition expiringToken :: TokenData where
  "expiringToken = \<lparr>AccessToken = ''A0'', RefreshToken = ''R0'', ExpiresAt = 1700000030\<rparr>"

definition expiringTokenNoRefresh :: TokenData where
  "expiringTokenNoRefresh = \<lparr>AccessToken = ''A0'', RefreshToken = [], ExpiresAt = 1700000030\<rparr>"

text \<open>The same, with a refresh token that the upstream rejects.\<close>

definition expiringTokenStale :: TokenData where
  "expiringTokenStale = \<lparr>AccessToken = ''A0'', RefreshToken = ''stale'', ExpiresAt = 1700000030\<rparr>"

definition noToken :: TokenData where
  "noToken = \<lparr>AccessToken = [], RefreshToken = [], ExpiresAt = 0\<rparr>"

definition marchRun :: raw_activity where
  "marchRun =
     [(''id'', JNumber 1), (''name'', JString ''Morning Run''),
      (''distance'', JNumber 10000), (''moving_time'', JNumber 3000),
      (''elapsed_time'', JNumber 3100), (''type'', JString ''Run''),
      (''start_date'', JString ''2024-03-15T10:00:00Z''),
      (''start_date_local'', JString ''2024-03-15T17:00:00Z'')]"

text \<open>What the monthly aggregates make of \<open>marchRun\<close>.\<close>

definition marchDistanceStat :: MonthlySportStats where
  "marchDistanceStat = \<lparr>MonthYear = ''2024-03'', RunWalkHike = 10000, Bike = 0, Other = 0\<rparr>"


text \<open>
  The body of the response to
  \<open>GET /api/weekly-pace-stats?startDate=2024-03-11&endDate=2024-03-17\<close> when the
  cache holds \<open>marchRun\<close>: 10 km at 3.33 m/s, in the yellow zone of 15 March.
\<close>

definition marchWeek :: "(string \<times> PaceStat) list" where
  "marchWeek =
     [(''2024-03-11'', emptyPaceStat), (''2024-03-12'', emptyPaceStat),
      (''2024-03-13'', emptyPaceStat), (''2024-03-14'', emptyPaceStat),
      (''2024-03-15'', \<lparr>Red = 0, Orange = 0, Yellow = 10, Green = 0\<rparr>),
      (''2024-03-16'', emptyPaceStat), (''2024-03-17'', emptyPaceStat)]"

text \<open>An activity with a distance and a date, and no moving time.\<close>

definition stoppedRun :: raw_activity where
  "stoppedRun =
     [(''id'', JNumber 2), (''name'', JString ''Manual Entry''),
      (''distance'', JNumber 500), (''moving_time'', JNumber 0),
      (''elapsed_time'', JNumber 0), (''type'', JString ''Run''),
      (''start_date'', JString ''2024-03-16T10:00:00Z''),
      (''start_date_local'', JString ''2024-03-16T17:00:00Z'')]"

section \<open>Theorems\<close>

subsection \<open>The mutex and the token functions\<close>

text \<open>The definitions that a concrete run unfolds.\<close>

lemmas token_defs = saveToken_def refreshAccessToken_def ensureValidToken_def Lock_def Unlock_def
  deferUnlock_def relock_def

lemmas example_defs = exampleEnv_def exampleWorld_def exampleReply_def freshToken_def
  expiringToken_def expiringTokenNoRefresh_def expiringTokenStale_def noToken_def

lemmas std_defs = stdlib_def stdRfc3339Month_def stdRfc3339Day_def stdParseDay_def stdFormatDay_def
  parseRFC3339_def parseClock_def skipFraction_def parseZone_def parseCivil_def atoi_def
  isDigit_def digitVal_def daysIn_def isLeap_def daysFromCivil_def civilFromDays_def
  digitChar_def pad2_def pad4_def

lemmas cache_defs = readLocalActivities_def minimalOf_def getFloat_def assertString_def
  List.map_filter_def marchRun_def stoppedRun_def

lemma saveToken_held: "tokenMutex w \<Longrightarrow> saveToken e t w = Stuck w"
  by (simp add: saveToken_def Lock_def)

lemma deferUnlock_held: "tokenMutex w \<Longrightarrow> deferUnlock r w = Return r (w\<lparr>tokenMutex := False\<rparr>)"
  by (simp add: deferUnlock_def Unlock_def)

lemma relock_free: "\<not> tokenMutex w \<Longrightarrow> relock r w = Return r w"
  by (simp add: relock_def Lock_def deferUnlock_held)

text \<open>
  \<open>refreshAccessToken\<close> calls \<open>saveToken\<close> while it holds \<open>tokenMutex\<close>, and
  \<open>saveToken\<close> starts with \<open>tokenMutex.Lock()\<close>: whatever the upstream answers, the
  function does not return success.
\<close>

lemma refreshAccessToken_never_succeeds: "refreshAccessToken e w \<noteq> Return (Inr v) w'"
  by (auto simp: refreshAccessToken_def Lock_def saveToken_held deferUnlock_held Let_def
      split: token_reply.splits token_body.splits)

lemma refreshAccessToken_free:
  "\<not> tokenMutex w \<Longrightarrow> refreshAccessToken e w = Return r w' \<Longrightarrow> \<not> tokenMutex w'"
  by (auto simp: refreshAccessToken_def Lock_def saveToken_held deferUnlock_held Let_def
      split: token_reply.splits token_body.splits if_splits)

lemma refreshAccessToken_tokenFile: "tokenFile (final (refreshAccessToken e w)) = tokenFile w"
  by (auto simp: refreshAccessToken_def Lock_def saveToken_held deferUnlock_held final_def Let_def
      split: token_reply.splits token_body.splits)

lemma refreshAccessToken_posted:
  "\<not> tokenMutex w \<Longrightarrow> RefreshToken (currentTokens w) \<noteq> [] \<Longrightarrow>
   posted (final (refreshAccessToken e w)) =
     posted w @ [RefreshGrant (RefreshToken (currentTokens w))]"
  by (auto simp: token_defs final_def Let_def split: token_reply.splits token_body.splits)

lemma refreshAccessToken_no_refresh_token:
  "\<not> tokenMutex w \<Longrightarrow> RefreshToken (currentTokens w) = [] \<Longrightarrow>
   refreshAccessToken e w = Return (Inl NoRefreshToken) w"
  by (simp add: token_defs)

lemma ensureValidToken_dataFile: "dataFile (final (ensureValidToken e w)) = dataFile w"
  by (auto simp: token_defs final_def Let_def split: token_reply.splits token_body.splits)

lemma ensureValidToken_frame:
  "ensureValidToken e w = Return (Inl x) w' \<Longrightarrow>
   ensureValidToken e (w\<lparr>dataFile := c\<rparr>) = Return (Inl x) (w'\<lparr>dataFile := c\<rparr>)"
  by (auto simp: token_defs Let_def split: token_reply.splits token_body.splits if_splits)

lemma ensureValidToken_refresh_branch:
  assumes "\<not> tokenMutex w" and "AccessToken (currentTokens w) \<noteq> []"
    and "ExpiresAt (currentTokens w) * 1000000000 < now e + tokenTTLMargin"
  shows "ensureValidToken e w =
           (case refreshAccessToken e w of
              Stuck w' \<Rightarrow> Stuck w'
            | Return (Inl x) w' \<Rightarrow> Return (Inl x) w'
            | Return (Inr v) w' \<Rightarrow> Return (Inr (AccessToken (currentTokens w'))) w')"
proof -
  have u: "Unlock (w\<lparr>tokenMutex := True\<rparr>) = Return () w"
    using assms(1) by (simp add: Unlock_def)
  show ?thesis
  proof (cases "refreshAccessToken e w")
    case (Return r w')
    then have "\<not> tokenMutex w'"
      using assms(1) refreshAccessToken_free by blast
    then show ?thesis
      using assms Return u
      by (simp add: ensureValidToken_def Lock_def relock_free split: sum.splits)
  next
    case (Stuck w')
    then show ?thesis
      using assms u by (simp add: ensureValidToken_def Lock_def)
  qed
qed

subsection \<open>C6: refresh when the token is about to expire\<close>

text \<open>
  C6, as the code has it.  Take a stored token with a non-empty access token for which
  the clock plus the 60 second margin is after \<open>expires_at\<close>, and a free mutex.  Then
  \<open>ensureValidToken\<close> calls \<open>refreshAccessToken\<close> before it returns, and its outcome
  is that call's: an error of the refresh is returned as it is, and an access token is
  returned only when the refresh returned success.  When the stored refresh token is
  not empty, exactly one refresh grant carrying it is posted upstream; when it is
  empty, nothing is posted and the call fails.
\<close>

theorem ensureValidToken_near_expiry:
  assumes "\<not> tokenMutex w" and "AccessToken (currentTokens w) \<noteq> []"
    and "ExpiresAt (currentTokens w) * 1000000000 < now e + tokenTTLMargin"
  shows "ensureValidToken e w =
           (case refreshAccessToken e w of
              Stuck w' \<Rightarrow> Stuck w'
            | Return (Inl x) w' \<Rightarrow> Return (Inl x) w'
            | Return (Inr v) w' \<Rightarrow> Return (Inr (AccessToken (currentTokens w'))) w')
         \<and> (RefreshToken (currentTokens w) \<noteq> [] \<longrightarrow>
              posted (final (ensureValidToken e w)) =
                posted w @ [RefreshGrant (RefreshToken (currentTokens w))])
         \<and> (RefreshToken (currentTokens w) = [] \<longrightarrow>
              ensureValidToken e w = Return (Inl NoRefreshToken) w)"
proof -
  have eq: "ensureValidToken e w =
           (case refreshAccessToken e w of
              Stuck w' \<Rightarrow> Stuck w'
            | Return (Inl x) w' \<Rightarrow> Return (Inl x) w'
            | Return (Inr v) w' \<Rightarrow> Return (Inr (AccessToken (currentTokens w'))) w')"
    using assms by (rule ensureValidToken_refresh_branch)
  have fin: "final (ensureValidToken e w) = final (refreshAccessToken e w)"
    unfolding eq by (simp add: final_def split: outcome.splits sum.splits)
  have p: "RefreshToken (currentTokens w) \<noteq> [] \<longrightarrow>
              posted (final (ensureValidToken e w)) =
                posted w @ [RefreshGrant (RefreshToken (currentTokens w))]"
    unfolding fin using assms(1) by (simp add: refreshAccessToken_posted)
  have n: "RefreshToken (currentTokens w) = [] \<longrightarrow>
              ensureValidToken e w = Return (Inl NoRefreshToken) w"
    unfolding eq using assms(1) by (simp add: refreshAccessToken_no_refresh_token)
  from eq p n show ?thesis by blast
qed

text \<open>
  A run of it: the token expires 30 seconds after the clock, the upstream rejects the
  stored refresh token with status 400, and the caller gets that error after one
  refresh grant was posted.
\<close>

theorem ensureValidToken_near_expiry_witness:
  "\<not> tokenMutex (exampleWorld expiringTokenStale Missing)
   \<and> AccessToken (currentTokens (exampleWorld expiringTokenStale Missing)) \<noteq> []
   \<and> ExpiresAt (currentTokens (exampleWorld expiringTokenStale Missing)) * 1000000000
       = now exampleEnv + 30 * 1000000000
   \<and> ensureValidToken exampleEnv (exampleWorld expiringTokenStale Missing) =
       Return (Inl (RefreshRejected 400))
         ((exampleWorld expiringTokenStale Missing)\<lparr>posted := [RefreshGrant ''stale'']\<rparr>)"
  using ensureValidToken_near_expiry [of "exampleWorld expiringTokenStale Missing" exampleEnv]
  by (simp add: example_defs token_defs tokenTTLMargin_def final_def)

text \<open>
  C6 as stated fails for a stored token whose refresh token is empty: the token expires
  in 30 seconds, \<open>ensureValidToken\<close> returns, and no refresh exchange was made.
\<close>

theorem ensureValidToken_empty_refresh_token_counterexample:
  "AccessToken (currentTokens (exampleWorld expiringTokenNoRefresh Missing)) \<noteq> []
   \<and> ExpiresAt (currentTokens (exampleWorld expiringTokenNoRefresh Missing)) * 1000000000
       < now exampleEnv + tokenTTLMargin
   \<and> ensureValidToken exampleEnv (exampleWorld expiringTokenNoRefresh Missing) =
       Return (Inl NoRefreshToken) (exampleWorld expiringTokenNoRefresh Missing)
   \<and> posted (exampleWorld expiringTokenNoRefresh Missing) = []"
  by (simp add: example_defs token_defs tokenTTLMargin_def)

subsection \<open>C9: a refresh whose response carries no refresh token\<close>

text \<open>
  After a successful exchange the function stops in \<open>saveToken\<close>: the mirror holds
  the new access token and expiry, the refresh token is replaced only by a non-empty
  one, the mutex stays held and the token file is as it was.
\<close>

lemma refreshAccessToken_stops_in_saveToken:
  assumes "\<not> tokenMutex w" and "RefreshToken (currentTokens w) \<noteq> []"
    and "oauth e (RefreshGrant (RefreshToken (currentTokens w))) = HttpReply 200 (Decoded newTokens)"
  shows "\<exists>w'. refreshAccessToken e w = Stuck w' \<and> tokenMutex w' \<and> tokenFile w' = tokenFile w
           \<and> AccessToken (currentTokens w') = AccessToken newTokens
           \<and> ExpiresAt (currentTokens w') = ExpiresAt newTokens
           \<and> RefreshToken (currentTokens w') =
               (if RefreshToken newTokens = [] then RefreshToken (currentTokens w)
                else RefreshToken newTokens)"
  using assms by (simp add: refreshAccessToken_def Lock_def saveToken_held Let_def)

text \<open>
  C9 at a concrete input.  The stored refresh token is \<open>R0\<close>, the upstream answers the
  refresh grant with status 200, access token \<open>A1\<close> and an empty refresh token.
  \<open>refreshAccessToken\<close> updates the in-memory mirror (new access token and expiry,
  refresh token \<open>R0\<close> kept) and then stops in \<open>saveToken\<close>'s \<open>Lock\<close>, holding the
  mutex: the call never returns and the token file still holds the old record.
\<close>

theorem refreshAccessToken_success_never_returns:
  "refreshAccessToken exampleEnv (exampleWorld expiringToken Missing) =
     Stuck \<lparr>currentTokens = \<lparr>AccessToken = ''A1'', RefreshToken = ''R0'', ExpiresAt = 1700021600\<rparr>,
            tokenMutex = True, tokenFile = Some expiringToken, dataFile = Missing,
            posted = [RefreshGrant ''R0'']\<rparr>"
  by (simp add: example_defs token_defs)

subsection \<open>C2: the authorization-code exchange\<close>

text \<open>
  C2, as the code has it.  When the exchange succeeds (status 200, a response that
  decodes, the token file written), the callback stores the decoded response as it is,
  in memory and in the token file: all three fields of the prior record are replaced,
  the refresh token too, whatever the response carries there.
\<close>

theorem callback_saves_response_as_is:
  assumes "\<not> tokenMutex w" and "code \<noteq> []"
    and "oauth e (CodeGrant code) = HttpReply 200 (Decoded tokenResponse)"
    and "\<not> mkdirFails e" and "\<not> writeFails e"
  shows "handleStravaCallback e code errorParam w =
           Return (Redirect 307 (frontendURL @ ''/?auth_status=success''))
             (w\<lparr>currentTokens := tokenResponse, tokenFile := Some tokenResponse,
                posted := posted w @ [CodeGrant code]\<rparr>)"
  using assms by (simp add: handleStravaCallback_def token_defs Let_def)

text \<open>
  A run of it: the exchange of the code \<open>abc\<close> replaces the stored record by the
  response.
\<close>

theorem callback_saves_response_as_is_witness:
  "\<not> tokenMutex (exampleWorld freshToken Missing) \<and> ''abc'' \<noteq> []
   \<and> oauth exampleEnv (CodeGrant ''abc'') = HttpReply 200 (Decoded exampleReply)
   \<and> \<not> mkdirFails exampleEnv \<and> \<not> writeFails exampleEnv
   \<and> handleStravaCallback exampleEnv ''abc'' [] (exampleWorld freshToken Missing) =
       Return (Redirect 307 ''http://localhost:5173/?auth_status=success'')
         \<lparr>currentTokens = exampleReply, tokenMutex = False, tokenFile = Some exampleReply,
          dataFile = Missing, posted = [CodeGrant ''abc'']\<rparr>"
  using callback_saves_response_as_is
    [of "exampleWorld freshToken Missing" "''abc''" exampleEnv exampleReply "[]"]
  by (simp add: example_defs frontendURL_def)

text \<open>
  C2 as stated fails: the stored record has the refresh token \<open>R0\<close>, the exchange
  succeeds with a response whose refresh token is empty, and the persisted record ends
  with the empty refresh token.
\<close>

theorem callback_overwrites_refresh_token_counterexample:
  "tokenFile (exampleWorld freshToken Missing) = Some freshToken
   \<and> RefreshToken freshToken = ''R0''
   \<and> handleStravaCallback exampleEnv ''abc'' [] (exampleWorld freshToken Missing) =
       Return (Redirect 307 ''http://localhost:5173/?auth_status=success'')
         \<lparr>currentTokens = exampleReply, tokenMutex = False, tokenFile = Some exampleReply,
          dataFile = Missing, posted = [CodeGrant ''abc'']\<rparr>
   \<and> RefreshToken exampleReply = []"
  by (simp add: example_defs frontendURL_def handleStravaCallback_def token_defs)

subsection \<open>C10: the statistics handlers ask for a token first\<close>

text \<open>
  C10.  Whenever \<open>ensureValidToken\<close> returns an error (no token was ever obtained, or
  the refresh failed), \<open>GET /api/stats\<close> and \<open>GET /api/pace-stats\<close> answer 401 with
  that error, and they do so whatever the cache file holds: the cache is not read.
\<close>

theorem stats_handlers_require_token:
  assumes "ensureValidToken e w = Return (Inl x) w'"
  shows "handleGetDistanceStats lib e (w\<lparr>dataFile := c\<rparr>) =
           Return (Response 401 (Inl x)) (w'\<lparr>dataFile := c\<rparr>)
       \<and> handleGetPaceStats lib e (w\<lparr>dataFile := c\<rparr>) =
           Return (Response 401 (Inl x)) (w'\<lparr>dataFile := c\<rparr>)"
  using ensureValidToken_frame [OF assms, of c]
  by (simp add: handleGetDistanceStats_def handleGetPaceStats_def)

text \<open>
  A run of it: no token was ever obtained, and the cache holds one activity.
\<close>

theorem stats_handlers_require_token_witness:
  "ensureValidToken exampleEnv (exampleWorld noToken Missing) =
     Return (Inl NoAccessToken) (exampleWorld noToken Missing)
   \<and> handleGetDistanceStats stdlib exampleEnv
         ((exampleWorld noToken Missing)\<lparr>dataFile := Doc [marchRun]\<rparr>) =
       Return (Response 401 (Inl NoAccessToken)) (exampleWorld noToken (Doc [marchRun]))
   \<and> handleGetPaceStats stdlib exampleEnv
         ((exampleWorld noToken Missing)\<lparr>dataFile := Doc [marchRun]\<rparr>) =
       Return (Response 401 (Inl NoAccessToken)) (exampleWorld noToken (Doc [marchRun]))"
proof -
  have h: "ensureValidToken exampleEnv (exampleWorld noToken Missing) =
     Return (Inl NoAccessToken) (exampleWorld noToken Missing)"
    by (simp add: example_defs token_defs)
  show ?thesis
    using h stats_handlers_require_token [OF h, of stdlib "Doc [marchRun]"]
    by (simp add: exampleWorld_def)
qed

subsection \<open>C1: the monthly endpoints on an empty cache\<close>

lemma ensureValidToken_dataFile_returned:
  "ensureValidToken e w = Return r w' \<Longrightarrow> dataFile w' = dataFile w"
  using ensureValidToken_dataFile [of e w] by (simp add: final_def)

text \<open>
  C1, as the code has it.  On a cache file holding the empty array,
  \<open>readLocalActivities\<close> finds no valid activity and reports that as an error, and
  both monthly aggregations fail with it; with a token that \<open>ensureValidToken\<close>
  accepts, both monthly endpoints answer 500 with that error.
\<close>

theorem empty_cache_stats_are_an_error:
  assumes "dataFile w = Doc []"
  shows "calculateMonthlyDistanceStats lib w = Inl NoValidData
       \<and> calculateMonthlyPaceStats lib w = Inl NoValidData
       \<and> (ensureValidToken e w = Return (Inr tok) w' \<longrightarrow>
            handleGetDistanceStats lib e w = Return (Response 500 (Inl NoValidData)) w'
          \<and> handleGetPaceStats lib e w = Return (Response 500 (Inl NoValidData)) w')"
proof -
  have r: "readLocalActivities w = Inl NoValidData"
    using assms by (simp add: readLocalActivities_def List.map_filter_def)
  have h: "ensureValidToken e w = Return (Inr tok) w' \<longrightarrow>
            handleGetDistanceStats lib e w = Return (Response 500 (Inl NoValidData)) w'
          \<and> handleGetPaceStats lib e w = Return (Response 500 (Inl NoValidData)) w'"
  proof
    assume ok: "ensureValidToken e w = Return (Inr tok) w'"
    then have "dataFile w' = Doc []"
      using assms ensureValidToken_dataFile_returned by fastforce
    then have "readLocalActivities w' = Inl NoValidData"
      by (simp add: readLocalActivities_def List.map_filter_def)
    then show "handleGetDistanceStats lib e w = Return (Response 500 (Inl NoValidData)) w'
          \<and> handleGetPaceStats lib e w = Return (Response 500 (Inl NoValidData)) w'"
      using ok
      by (simp add: handleGetDistanceStats_def handleGetPaceStats_def
          calculateMonthlyDistanceStats_def calculateMonthlyPaceStats_def)
  qed
  from r h show ?thesis
    by (simp add: calculateMonthlyDistanceStats_def calculateMonthlyPaceStats_def)
qed

text \<open>
  A run of it, with a token that is valid for another hour.
\<close>

theorem empty_cache_stats_are_an_error_witness:
  "dataFile (exampleWorld freshToken (Doc [])) = Doc []
   \<and> calculateMonthlyDistanceStats stdlib (exampleWorld freshToken (Doc [])) = Inl NoValidData
   \<and> calculateMonthlyPaceStats stdlib (exampleWorld freshToken (Doc [])) = Inl NoValidData
   \<and> ensureValidToken exampleEnv (exampleWorld freshToken (Doc [])) =
       Return (Inr ''A0'') (exampleWorld freshToken (Doc []))
   \<and> handleGetDistanceStats stdlib exampleEnv (exampleWorld freshToken (Doc [])) =
       Return (Response 500 (Inl NoValidData)) (exampleWorld freshToken (Doc []))
   \<and> handleGetPaceStats stdlib exampleEnv (exampleWorld freshToken (Doc [])) =
       Return (Response 500 (Inl NoValidData)) (exampleWorld freshToken (Doc []))"
proof -
  have h: "ensureValidToken exampleEnv (exampleWorld freshToken (Doc [])) =
     Return (Inr ''A0'') (exampleWorld freshToken (Doc []))"
    by (simp add: example_defs token_defs tokenTTLMargin_def)
  have d: "dataFile (exampleWorld freshToken (Doc [])) = Doc []"
    by (simp add: exampleWorld_def)
  show ?thesis
    using h d empty_cache_stats_are_an_error
      [OF d, of stdlib exampleEnv "''A0''" "exampleWorld freshToken (Doc [])"]
    by simp
qed

text \<open>
  C1 as stated fails: the token is valid, the cache file holds \<open>[]\<close>, and the
  response of \<open>GET /api/stats\<close> is not 200 with the empty list; it is a 500, and so is
  the response of \<open>GET /api/pace-stats\<close>.
\<close>

theorem empty_cache_stats_counterexample:
  "dataFile (exampleWorld freshToken (Doc [])) = Doc []
   \<and> handleGetDistanceStats stdlib exampleEnv (exampleWorld freshToken (Doc [])) \<noteq>
       Return (Response 200 (Inr [])) (exampleWorld freshToken (Doc []))
   \<and> handleGetDistanceStats stdlib exampleEnv (exampleWorld freshToken (Doc [])) =
       Return (Response 500 (Inl NoValidData)) (exampleWorld freshToken (Doc []))
   \<and> handleGetPaceStats stdlib exampleEnv (exampleWorld freshToken (Doc [])) =
       Return (Response 500 (Inl NoValidData)) (exampleWorld freshToken (Doc []))"
  by (simp add: example_defs token_defs tokenTTLMargin_def handleGetDistanceStats_def
      handleGetPaceStats_def calculateMonthlyDistanceStats_def calculateMonthlyPaceStats_def
      readLocalActivities_def List.map_filter_def)

subsection \<open>C4: conservation of distance in the monthly aggregate\<close>

lemma sum_list_update:
  "sum_list (map (f \<circ> snd) (AList.update k v m)) =
     sum_list (map (f \<circ> snd) m) + f v
       - (case map_of m k of None \<Rightarrow> 0 | Some s \<Rightarrow> (f s :: real))"
  by (induction m) auto

lemma classifyActivity_cases:
  "classifyActivity t = ''RunWalkHike'' \<or> classifyActivity t = ''Bike'' \<or>
   classifyActivity t = ''Other''"
  by (simp add: classifyActivity_def)

lemma addDistance_total:
  "(\<lambda>s. RunWalkHike s + Bike s + Other s) (addDistance (classifyActivity t) d stat) =
   RunWalkHike stat + Bike stat + Other stat + d"
  using classifyActivity_cases [of t] by (auto simp: addDistance_def)

lemma monthlyTotal_distanceStep:
  "monthlyTotal (map snd (distanceStep lib m a)) =
     monthlyTotal (map snd m) +
     (if rfc3339Month lib (StartDate a) \<noteq> None then Distance a else 0)"
proof (cases "rfc3339Month lib (StartDate a)")
  case None
  then show ?thesis by (simp add: distanceStep_def)
next
  case (Some my)
  show ?thesis
    using Some addDistance_total [of "Type a" "Distance a"]
    by (simp add: distanceStep_def monthlyTotal_def Let_def
        sum_list_update [where f = "\<lambda>s. RunWalkHike s + Bike s + Other s"]
        split: option.splits)
qed

lemma monthlyTotal_foldl:
  "monthlyTotal (map snd (foldl (distanceStep lib) m acts)) =
     monthlyTotal (map snd m) +
     sum_list (map Distance (filter (\<lambda>a. rfc3339Month lib (StartDate a) \<noteq> None) acts))"
  by (induction acts arbitrary: m) (simp_all add: monthlyTotal_distanceStep)

text \<open>
  C4, as the code has it.  Whenever the monthly distance aggregate is produced, its sum
  over all categories and months equals the sum of the distance over the activities
  that \<open>readLocalActivities\<close> keeps (a string start date, a string type, a positive
  distance and a positive moving time) and whose start date parses.  The sums are
  taken in exact arithmetic.
\<close>

theorem monthly_distance_conservation:
  assumes "dataFile w = Doc rawActivities"
    and "calculateMonthlyDistanceStats lib w = Inr stats"
  shows "monthlyTotal stats = keptDistance lib rawActivities"
proof -
  have st: "stats = map snd (foldl (distanceStep lib) [] (List.map_filter minimalOf rawActivities))"
    using assms
    by (auto simp: calculateMonthlyDistanceStats_def readLocalActivities_def Let_def
        split: if_splits)
  have "monthlyTotal stats =
      monthlyTotal (map snd ([] :: (string \<times> MonthlySportStats) list)) +
      sum_list (map Distance (filter (\<lambda>a. rfc3339Month lib (StartDate a) \<noteq> None)
        (List.map_filter minimalOf rawActivities)))"
    unfolding st by (rule monthlyTotal_foldl)
  then show ?thesis
    by (simp add: keptDistance_def monthlyTotal_def)
qed

text \<open>
  A run of it: of the two cached activities only the run of 10000 m is kept, and the
  aggregate sums to 10000.
\<close>

theorem monthly_distance_conservation_witness:
  "dataFile (exampleWorld freshToken (Doc [marchRun, stoppedRun])) = Doc [marchRun, stoppedRun]
   \<and> calculateMonthlyDistanceStats stdlib (exampleWorld freshToken (Doc [marchRun, stoppedRun])) =
       Inr [marchDistanceStat]
   \<and> monthlyTotal [marchDistanceStat] = keptDistance stdlib [marchRun, stoppedRun]
   \<and> keptDistance stdlib [marchRun, stoppedRun] = 10000"
proof -
  have d: "dataFile (exampleWorld freshToken (Doc [marchRun, stoppedRun])) =
      Doc [marchRun, stoppedRun]"
    by (simp add: exampleWorld_def)
  have c: "calculateMonthlyDistanceStats stdlib
        (exampleWorld freshToken (Doc [marchRun, stoppedRun])) = Inr [marchDistanceStat]"
    by (simp add: calculateMonthlyDistanceStats_def cache_defs exampleWorld_def distanceStep_def
        classifyActivity_def addDistance_def std_defs Let_def marchDistanceStat_def)
  have k: "keptDistance stdlib [marchRun, stoppedRun] = 10000"
    by (simp add: keptDistance_def cache_defs std_defs Let_def)
  show ?thesis
    using d c k monthly_distance_conservation [OF d c] by simp
qed

text \<open>
  C4 as stated fails: the cache holds a run of 10000 m and an activity of 500 m whose
  moving time is 0, both with dates that parse.  The aggregate sums to 10000, the
  distances of the activities with parseable dates sum to 10500.
\<close>

theorem monthly_distance_conservation_counterexample:
  "calculateMonthlyDistanceStats stdlib (exampleWorld freshToken (Doc [marchRun, stoppedRun])) =
       Inr [marchDistanceStat]
   \<and> monthlyTotal [marchDistanceStat] = 10000
   \<and> parseableDistance stdlib [marchRun, stoppedRun] = 10500"
  by (simp add: calculateMonthlyDistanceStats_def cache_defs exampleWorld_def distanceStep_def
      classifyActivity_def addDistance_def std_defs Let_def monthlyTotal_def
      parseableDistance_def marchDistanceStat_def)

subsection \<open>C8: the pace of a category without distance\<close>

lemma set_update_cases: "p \<in> set (AList.update k v m) \<Longrightarrow> p = (k, v) \<or> p \<in> set m"
  by (induction m) (auto split: if_splits)







subsection \<open>C5: a failed page leaves the cache file as it was\<close>

lemma fetchPages_failure:
  "pageFailure (get k) = Some x \<Longrightarrow> fetchPages get k acc = Some (Inl x)"
  by (subst fetchPages.simps)
    (auto simp: pageFailure_def split: page_reply.splits page_body.splits if_splits)

lemma fetchPages_full:
  "fullPage (get p) \<Longrightarrow> \<exists>acc'. fetchPages get p acc = fetchPages get (Suc p) acc'"
  by (subst fetchPages.simps)
    (auto simp: fullPage_def split: page_reply.splits page_body.splits)

lemma fetchPages_skip:
  "\<forall>p\<in>{page..<page + n}. fullPage (get p) \<Longrightarrow>
   \<exists>acc'. fetchPages get page acc = fetchPages get (page + n) acc'"
proof (induction n arbitrary: page acc)
  case 0
  then show ?case by auto
next
  case (Suc n)
  have "fullPage (get page)"
    using Suc.prems by simp
  then obtain a1 where a1: "fetchPages get page acc = fetchPages get (Suc page) a1"
    using fetchPages_full by blast
  have "\<forall>p\<in>{Suc page..<Suc page + n}. fullPage (get p)"
    using Suc.prems by simp
  then obtain a2 where "fetchPages get (Suc page) a1 = fetchPages get (Suc page + n) a2"
    using Suc.IH by blast
  then show ?case
    using a1 by auto
qed

text \<open>
  C5.  An execution of \<open>fetchAndSaveAllActivities\<close> fails on page \<open>k\<close> when the pages
  before it succeeded and were full, and the request for page \<open>k\<close> meets a transport
  error or timeout, a status other than 200, or an undecodable body.  Every such
  execution returns that error, and the state it returns is the state it started in:
  the cache file is neither created nor modified.
\<close>

theorem failed_page_leaves_cache_untouched:
  assumes "1 \<le> k"
    and "\<forall>p\<in>{1..<k}. fullPage (activityPages e accessToken p)"
    and "pageFailure (activityPages e accessToken k) = Some x"
  shows "fetchAndSaveAllActivities e accessToken w = Return (Inl x) w"
proof -
  have k: "1 + (k - 1) = k"
    using assms(1) by simp
  have "\<forall>p\<in>{1..<1 + (k - 1)}. fullPage (activityPages e accessToken p)"
    using assms(2) k by simp
  then obtain acc where
    "fetchPages (activityPages e accessToken) 1 [] =
     fetchPages (activityPages e accessToken) (1 + (k - 1)) acc"
    using fetchPages_skip by blast
  then have "fetchPages (activityPages e accessToken) 1 [] = Some (Inl x)"
    using assms(3) k by (simp add: fetchPages_failure)
  then show ?thesis
    by (simp add: fetchAndSaveAllActivities_def)
qed

text \<open>
  A run of it: the first page holds 200 activities, the second request is answered
  with 401, and the cache that held one activity still holds it.
\<close>

theorem failed_page_leaves_cache_untouched_witness:
  "(1::nat) \<le> 2
   \<and> fullPage (activityPages exampleEnv ''A0'' 1)
   \<and> pageFailure (activityPages exampleEnv ''A0'' 2) = Some (UpstreamError 401)
   \<and> fetchAndSaveAllActivities exampleEnv ''A0'' (exampleWorld freshToken (Doc [marchRun])) =
       Return (Inl (UpstreamError 401)) (exampleWorld freshToken (Doc [marchRun]))"
proof -
  have f: "fullPage (activityPages exampleEnv ''A0'' 1)"
    by (simp add: exampleEnv_def fullPage_def perPage_def)
  have a: "\<forall>p\<in>{1..<2}. fullPage (activityPages exampleEnv ''A0'' p)"
  proof
    fix p :: nat
    assume "p \<in> {1..<2}"
    then have "p = 1" by auto
    then show "fullPage (activityPages exampleEnv ''A0'' p)"
      using f by simp
  qed
  have b: "pageFailure (activityPages exampleEnv ''A0'' 2) = Some (UpstreamError 401)"
    by (simp add: exampleEnv_def pageFailure_def)
  show ?thesis
    using f b failed_page_leaves_cache_untouched
      [of 2 exampleEnv "''A0''" "UpstreamError 401" "exampleWorld freshToken (Doc [marchRun])",
        OF _ a b]
    by simp
qed

subsection \<open>The date-range aggregate: the day map\<close>

lemma withinRange_iff: "withinRange s e d \<longleftrightarrow> d \<in> {s..e}"
  by (auto simp: withinRange_def)

lemma initDays_keys:
  "fst ` set (initDays lib c e m) = fst ` set m \<union> formatDay lib ` {c..e}"
proof (induction lib c e m rule: initDays.induct)
  case (1 lib current endDate weeklyData)
  show ?case
  proof (cases "current < endDate + 1")
    case True
    then have "{current..endDate} = insert current {current + 1..endDate}"
      by auto
    then show ?thesis
      using True 1 by (subst initDays.simps) (auto simp: AList.dom_update)
  next
    case False
    then show ?thesis by (subst initDays.simps) auto
  qed
qed

lemma initDays_values:
  "\<forall>p\<in>set m. snd p = emptyPaceStat \<Longrightarrow> \<forall>p\<in>set (initDays lib c e m). snd p = emptyPaceStat"
proof (induction lib c e m rule: initDays.induct)
  case (1 lib current endDate weeklyData)
  show ?case
  proof (cases "current < endDate + 1")
    case True
    have "\<forall>p\<in>set (AList.update (formatDay lib current) emptyPaceStat weeklyData). snd p = emptyPaceStat"
      using 1(2) by (auto dest!: set_update_cases)
    then show ?thesis
      using True 1(1) by (subst initDays.simps) simp
  next
    case False
    then show ?thesis using 1(2) by (subst initDays.simps) simp
  qed
qed

lemma initDays_order:
  "inj_on (formatDay lib) {s..e} \<Longrightarrow> s \<le> c \<Longrightarrow> c \<le> e + 1 \<Longrightarrow>
   map fst m = map (formatDay lib) [s..c - 1] \<Longrightarrow>
   map fst (initDays lib c e m) = map (formatDay lib) [s..e]"
proof (induction lib c e m rule: initDays.induct)
  case (1 lib current endDate weeklyData)
  show ?case
  proof (cases "current < endDate + 1")
    case True
    have notin: "formatDay lib current \<notin> set (map fst weeklyData)"
    proof
      assume "formatDay lib current \<in> set (map fst weeklyData)"
      then obtain d where d: "d \<in> {s..current - 1}" "formatDay lib d = formatDay lib current"
        using 1(5) by auto
      then have "d \<in> {s..endDate}" "current \<in> {s..endDate}"
        using True 1(3) by auto
      then have "d = current"
        using d(2) 1(2) by (auto dest: inj_onD)
      then show False using d(1) by simp
    qed
    have "[s..current] = [s..current - 1] @ [current]"
      using 1(3) by (simp add: upto_rec2)
    then have "map fst (AList.update (formatDay lib current) emptyPaceStat weeklyData) =
        map (formatDay lib) [s..current + 1 - 1]"
      using notin 1(5) by (simp add: AList.update_keys)
    then have "map fst (initDays lib (current + 1) endDate
        (AList.update (formatDay lib current) emptyPaceStat weeklyData)) = map (formatDay lib) [s..endDate]"
      using 1(1) [OF True 1(2)] True 1(3) by simp
    then show ?thesis
      using True by (subst initDays.simps) simp
  next
    case False
    then have "current - 1 = endDate" using 1(4) by simp
    then show ?thesis
      using False 1(5) by (subst initDays.simps) simp
  qed
qed

lemma weeklyStep_keys:
  assumes "formatDay lib ` {s..e} \<subseteq> fst ` set m"
  shows "map fst (weeklyStep lib s e m a) = map fst m"
proof (cases "rfc3339Day lib (ActStartDateLocal a)")
  case None
  then show ?thesis by (simp add: weeklyStep_def)
next
  case (Some d)
  show ?thesis
  proof (cases "withinRange s e d")
    case True
    then have "formatDay lib d \<in> fst ` set m"
      using assms by (auto simp: withinRange_iff)
    then show ?thesis
      using Some True by (simp add: weeklyStep_def Let_def AList.update_keys)
  next
    case False
    then show ?thesis using Some by (simp add: weeklyStep_def)
  qed
qed

lemma weeklyFold_keys:
  "formatDay lib ` {s..e} \<subseteq> fst ` set m \<Longrightarrow>
   map fst (foldl (weeklyStep lib s e) m acts) = map fst m"
proof (induction acts arbitrary: m)
  case Nil
  then show ?case by simp
next
  case (Cons a acts)
  have k: "map fst (weeklyStep lib s e m a) = map fst m"
    using Cons.prems by (rule weeklyStep_keys)
  then have "fst ` set (weeklyStep lib s e m a) = fst ` set m"
    by (metis set_map)
  then show ?case
    using Cons k by simp
qed

lemma weeklyStep_other_day:
  assumes "inj_on (formatDay lib) {s..e}" and "d \<in> {s..e}"
    and "rfc3339Day lib (ActStartDateLocal a) \<noteq> Some d"
  shows "map_of (weeklyStep lib s e m a) (formatDay lib d) = map_of m (formatDay lib d)"
proof (cases "rfc3339Day lib (ActStartDateLocal a)")
  case None
  then show ?thesis by (simp add: weeklyStep_def)
next
  case (Some d')
  show ?thesis
  proof (cases "withinRange s e d'")
    case True
    then have "d' \<in> {s..e}" by (simp add: withinRange_iff)
    moreover have "d' \<noteq> d" using assms(3) Some by simp
    ultimately have "formatDay lib d' \<noteq> formatDay lib d"
      using assms(1,2) by (auto dest: inj_onD)
    then show ?thesis
      using Some True by (simp add: weeklyStep_def Let_def AList.update_conv')
  next
    case False
    then show ?thesis using Some by (simp add: weeklyStep_def)
  qed
qed

lemma weeklyFold_other_day:
  "inj_on (formatDay lib) {s..e} \<Longrightarrow> d \<in> {s..e} \<Longrightarrow>
   \<forall>a\<in>set acts. rfc3339Day lib (ActStartDateLocal a) \<noteq> Some d \<Longrightarrow>
   map_of (foldl (weeklyStep lib s e) m acts) (formatDay lib d) = map_of m (formatDay lib d)"
  by (induction acts arbitrary: m) (simp_all add: weeklyStep_other_day)

lemma initDays_entry:
  assumes "d \<in> {s..e}"
  shows "map_of (initDays lib s e []) (formatDay lib d) = Some emptyPaceStat"
proof -
  have "formatDay lib d \<in> fst ` set (initDays lib s e [])"
    using assms by (simp add: initDays_keys)
  then obtain v where v: "map_of (initDays lib s e []) (formatDay lib d) = Some v"
    by (metis map_of_eq_None_iff not_Some_eq)
  then have "(formatDay lib d, v) \<in> set (initDays lib s e [])"
    by (rule map_of_SomeD)
  moreover have "\<forall>p\<in>set (initDays lib s e []). snd p = emptyPaceStat"
    by (rule initDays_values) simp
  ultimately show ?thesis using v by auto
qed

text \<open>The week of 11 to 17 March 2024 under \<open>stdlib\<close>.\<close>

lemma stdParseDay_examples:
  "parseDay stdlib ''2024-03-11'' = Some 19793" "parseDay stdlib ''2024-03-17'' = Some 19799"
  by code_simp+

lemma stdFormatDay_week:
  "map (formatDay stdlib) [19793..19799] =
     [''2024-03-11'', ''2024-03-12'', ''2024-03-13'', ''2024-03-14'', ''2024-03-15'',
      ''2024-03-16'', ''2024-03-17'']"
  by code_simp

lemma stdFormatDay_week_inj: "inj_on (formatDay stdlib) {19793..19799}"
proof -
  have "distinct (map (formatDay stdlib) [19793..19799])"
    unfolding stdFormatDay_week by simp
  then have "inj_on (formatDay stdlib) (set [19793..19799])"
    by (simp only: distinct_map)
  then show ?thesis by (simp only: set_upto)
qed

lemma marchWeek_data:
  "weeklyPaceData stdlib (exampleWorld freshToken (Doc [marchRun])) 19793 19799 = marchWeek"
  by code_simp

lemma marchWeek_facts:
  "int (length marchWeek) = 19799 - 19793 + 1"
  "map_of marchWeek ''2024-03-11'' = Some emptyPaceStat"
  "map fst marchWeek =
       [''2024-03-11'', ''2024-03-12'', ''2024-03-13'', ''2024-03-14'', ''2024-03-15'',
        ''2024-03-16'', ''2024-03-17'']"
  by (simp_all add: marchWeek_def)

subsection \<open>C7: one entry per calendar day\<close>

text \<open>
  C7.  For a request whose \<open>startDate\<close> and \<open>endDate\<close> parse to the days \<open>s \<le> t\<close>
  (and a \<open>Format("2006-01-02")\<close> that gives different days of the range different
  strings, as it does for the four-digit years that the query format admits), the
  response is 200 and its body holds exactly \<open>t - s + 1\<close> entries, one per calendar day
  of the range and in no other key; a day on which no cached activity falls has all
  four zone distances equal to zero.
\<close>

theorem weekly_one_entry_per_day:
  assumes "startQuery \<noteq> []" and "endQuery \<noteq> []"
    and "parseDay lib startQuery = Some s" and "parseDay lib endQuery = Some t"
    and "s \<le> t" and "inj_on (formatDay lib) {s..t}"
  shows "handleGetWeeklyPaceStats lib e startQuery endQuery w =
           Response 200 (Inr (weeklyPaceData lib w s t))
       \<and> map fst (weeklyPaceData lib w s t) = map (formatDay lib) [s..t]
       \<and> int (length (weeklyPaceData lib w s t)) = t - s + 1
       \<and> (\<forall>d\<in>{s..t}.
            (\<forall>a\<in>set (loadLocalActivities lib w). rfc3339Day lib (ActStartDateLocal a) \<noteq> Some d)
            \<longrightarrow> map_of (weeklyPaceData lib w s t) (formatDay lib d) = Some emptyPaceStat)"
proof -
  have r: "handleGetWeeklyPaceStats lib e startQuery endQuery w =
           Response 200 (Inr (weeklyPaceData lib w s t))"
    using assms(1-4) by (simp add: handleGetWeeklyPaceStats_def)
  have i: "map fst (initDays lib s t []) = map (formatDay lib) [s..t]"
    using assms(5,6) by (intro initDays_order) auto
  have sub: "formatDay lib ` {s..t} \<subseteq> fst ` set (initDays lib s t [])"
    by (simp add: initDays_keys)
  have k: "map fst (weeklyPaceData lib w s t) = map (formatDay lib) [s..t]"
    unfolding weeklyPaceData_def using weeklyFold_keys [OF sub] i by simp
  have "length (map fst (weeklyPaceData lib w s t)) = length (map (formatDay lib) [s..t])"
    using k by simp
  then have l: "int (length (weeklyPaceData lib w s t)) = t - s + 1"
    using assms(5) by simp
  have z: "\<forall>d\<in>{s..t}.
            (\<forall>a\<in>set (loadLocalActivities lib w). rfc3339Day lib (ActStartDateLocal a) \<noteq> Some d)
            \<longrightarrow> map_of (weeklyPaceData lib w s t) (formatDay lib d) = Some emptyPaceStat"
    unfolding weeklyPaceData_def
    using assms(6) by (auto simp: weeklyFold_other_day initDays_entry)
  from r k l z show ?thesis by blast
qed

text \<open>
  A run of it: the week of 11 to 17 March 2024 has seven entries, and 11 March, a day
  without activity, is all zero.
\<close>

theorem weekly_one_entry_per_day_witness:
  "''2024-03-11'' \<noteq> [] \<and> ''2024-03-17'' \<noteq> []
   \<and> parseDay stdlib ''2024-03-11'' = Some 19793 \<and> parseDay stdlib ''2024-03-17'' = Some 19799
   \<and> (19793::int) \<le> 19799 \<and> inj_on (formatDay stdlib) {19793..19799}
   \<and> handleGetWeeklyPaceStats stdlib exampleEnv ''2024-03-11'' ''2024-03-17''
         (exampleWorld freshToken (Doc [marchRun])) = Response 200 (Inr marchWeek)
   \<and> int (length marchWeek) = 19799 - 19793 + 1
   \<and> map_of marchWeek ''2024-03-11'' = Some emptyPaceStat"
  using weekly_one_entry_per_day
    [of "''2024-03-11''" "''2024-03-17''" stdlib 19793 19799 exampleEnv
      "exampleWorld freshToken (Doc [marchRun])",
      OF _ _ stdParseDay_examples(1) stdParseDay_examples(2) _ stdFormatDay_week_inj]
    stdParseDay_examples stdFormatDay_week_inj marchWeek_facts(1,2)
  by (simp add: marchWeek_data)

subsection \<open>C3: what the date-range response contains\<close>

text \<open>
  C3, as the code has it.  For a request whose \<open>startDate\<close> and \<open>endDate\<close> parse, the
  response is 200 and its body is the per-day map alone: every member is keyed by the
  date of a day of the range and holds that day's four zone distances.  No total
  distance, total moving time or average pace is part of it.
\<close>

theorem weekly_response_is_the_day_map:
  assumes "startQuery \<noteq> []" and "endQuery \<noteq> []"
    and "parseDay lib startQuery = Some s" and "parseDay lib endQuery = Some t"
  shows "handleGetWeeklyPaceStats lib e startQuery endQuery w =
           Response 200 (Inr (weeklyPaceData lib w s t))
       \<and> fst ` set (weeklyPaceData lib w s t) = formatDay lib ` {s..t}"
proof -
  have sub: "formatDay lib ` {s..t} \<subseteq> fst ` set (initDays lib s t [])"
    by (simp add: initDays_keys)
  have "set (map fst (weeklyPaceData lib w s t)) = set (map fst (initDays lib s t []))"
    unfolding weeklyPaceData_def using weeklyFold_keys [OF sub] by simp
  then have "fst ` set (weeklyPaceData lib w s t) = formatDay lib ` {s..t}"
    by (simp add: initDays_keys)
  then show ?thesis
    using assms by (simp add: handleGetWeeklyPaceStats_def)
qed

text \<open>
  A run of it, on the same week.
\<close>

theorem weekly_response_is_the_day_map_witness:
  "''2024-03-11'' \<noteq> [] \<and> ''2024-03-17'' \<noteq> []
   \<and> parseDay stdlib ''2024-03-11'' = Some 19793 \<and> parseDay stdlib ''2024-03-17'' = Some 19799
   \<and> handleGetWeeklyPaceStats stdlib exampleEnv ''2024-03-11'' ''2024-03-17''
         (exampleWorld freshToken (Doc [marchRun])) = Response 200 (Inr marchWeek)
   \<and> fst ` set marchWeek = formatDay stdlib ` {19793..19799}"
  using weekly_response_is_the_day_map
    [of "''2024-03-11''" "''2024-03-17''" stdlib 19793 19799 exampleEnv
      "exampleWorld freshToken (Doc [marchRun])",
      OF _ _ stdParseDay_examples(1) stdParseDay_examples(2)]
    stdParseDay_examples
  by (simp add: marchWeek_data)

text \<open>
  C3 as stated fails: for the week of 11 to 17 March 2024 and a cache holding one run,
  the members of the response body are the seven days, each a \<open>PaceStat\<close>, and nothing
  else.
\<close>

theorem weekly_response_has_no_summary_counterexample:
  "handleGetWeeklyPaceStats stdlib exampleEnv ''2024-03-11'' ''2024-03-17''
         (exampleWorld freshToken (Doc [marchRun])) = Response 200 (Inr marchWeek)
   \<and> map fst marchWeek =
       [''2024-03-11'', ''2024-03-12'', ''2024-03-13'', ''2024-03-14'', ''2024-03-15'',
        ''2024-03-16'', ''2024-03-17'']"
  using stdParseDay_examples marchWeek_facts(3)
  by (simp add: handleGetWeeklyPaceStats_def marchWeek_data)

end
